theory Spec2Isabelle
  imports Main
begin

section \<open>Errors\<close>

text \<open>
  Modelled from the spec: the error taxonomy of section 7, which the two source files do
  not declare. \<open>ConnectionTimeout\<close> names the endpoint (node name and port) and the
  elapsed time; the others name the node or instance. \<open>ReactorNotRunning\<close> is the
  exception with which the reactor's \<open>stop\<close> refuses to stop a reactor that is not
  running. Exceptions of the program are values of this type: a function that raises
  returns \<open>Inl e\<close>, one that returns normally returns \<open>Inr\<close> of the state it
  leaves behind.
\<close>

datatype error =
    ConnectionTimeout string nat nat
  | RegistryError string
  | ServerBindError string
  | DuplicateInstanceError string
  | ReactorNotRunning

section \<open>The node template (examples/nativeMode/template/nodeTest.py)\<close>

subsection \<open>Handles and registries\<close>

text \<open>
  Modelled from the spec: the classes of \<open>simulaqron.general.hostConfig\<close> and the
  remote objects of the backend, which the template only uses. A registry has a
  \<open>hostDict\<close> from node names to hosts (the spec's EndpointRecord: host and port under
  the node's name); the handles \<open>qReg\<close> and \<open>virtRoot\<close> are ConnectionHandles, live
  channels of some kind to a host and port. The entry of a peer in the registry carries
  the handle of the connection to it, once there is one.
\<close>

datatype channel = VirtualNode | QuantumRegister | ClassicalPeer

datatype handle = Handle channel string nat

record host =
  hostname :: string
  port :: nat
  root :: "handle option"

text \<open>A Python dict in insertion order: \<open>map_of\<close> looks a key up.\<close>

record socketsConfig =
  hostDict :: "(string \<times> host) list"

subsection \<open>localNode\<close>

text \<open>
  \<^verbatim>\<open>
  class localNode(pb.Root):
      def __init__(self, node, classicalNet):
          self.node = node
          self.classicalNet = classicalNet
          self.virtRoot = None
          self.qReg = None
      def set_virtual_node(self, virtRoot):
          self.virtRoot = virtRoot
      def set_virtual_reg(self, qReg):
          self.qReg = qReg
      def remote_test(self):
          return "Tested!"
  \<close>
\<close>

record localNode =
  node :: host
  classicalNet :: socketsConfig
  virtRoot :: "handle option"
  qReg :: "handle option"

definition localNode_init :: "host \<Rightarrow> socketsConfig \<Rightarrow> localNode" where
  "localNode_init nd cnet =
     \<lparr>node = nd, classicalNet = cnet, virtRoot = None, qReg = None\<rparr>"

definition set_virtual_node :: "localNode \<Rightarrow> handle \<Rightarrow> localNode" where
  "set_virtual_node self v = self\<lparr>virtRoot := Some v\<rparr>"

definition set_virtual_reg :: "localNode \<Rightarrow> handle \<Rightarrow> localNode" where
  "set_virtual_reg self r = self\<lparr>qReg := Some r\<rparr>"

definition remote_test :: "localNode \<Rightarrow> string" where
  "remote_test self = ''Tested!''"

subsection \<open>runClientNode\<close>

text \<open>
  The application continuation of the template logs one debug line and stops the
  reactor. The process state it acts on is the debug log and the reactor flag.
  \<open>reactor.stop()\<close> stops a running reactor and raises \<open>ReactorNotRunning\<close> when
  the reactor is not running; the exception leaves the function.
\<close>

record process =
  debug_log :: "string list"
  reactor_running :: bool

definition reactor_stop :: "process \<Rightarrow> error + process" where
  "reactor_stop p =
     (if reactor_running p then Inr (p\<lparr>reactor_running := False\<rparr>)
      else Inl ReactorNotRunning)"

definition runClientNode ::
  "handle \<Rightarrow> handle \<Rightarrow> string \<Rightarrow> socketsConfig \<Rightarrow> process \<Rightarrow> error + process" where
  "runClientNode qr vr nm cnet p =
     reactor_stop
       (p\<lparr>debug_log := debug_log p @ [''LOCAL '' @ nm @ '': Runing client side program.'']\<rparr>)"

subsection \<open>main\<close>

text \<open>
  \<open>main\<close> reads the two registries, decides whether this node runs a classical
  server, and hands everything to \<open>setup_local\<close>. The configuration reader
  \<open>socketsConfig\<close>, the path of the network file and \<open>setup_local\<close> come from the
  package and are parameters here. The template's own name is the placeholder
  \<open>YOURNAME\<close>; \<open>main_as\<close> is \<open>main\<close> for any name written in its place.
\<close>

definition main_lNode :: "string \<Rightarrow> socketsConfig \<Rightarrow> localNode option" where
  "main_lNode nm cnet =
     (case map_of (hostDict cnet) nm of
        Some h \<Rightarrow> Some (localNode_init h cnet)
      | None \<Rightarrow> None)"

definition main_as ::
  "string \<Rightarrow> (string \<Rightarrow> socketsConfig) \<Rightarrow> string \<Rightarrow>
   (string \<Rightarrow> socketsConfig \<Rightarrow> socketsConfig \<Rightarrow> localNode option \<Rightarrow>
     (handle \<Rightarrow> handle \<Rightarrow> string \<Rightarrow> socketsConfig \<Rightarrow> process \<Rightarrow> error + process) \<Rightarrow> 'r) \<Rightarrow> 'r" where
  "main_as nm read_config network_file setup =
     (let classicalFile = ''./classicalNet.cfg'';
          virtualNet = read_config network_file;
          cnet = read_config classicalFile;
          lNode = main_lNode nm cnet
      in setup nm virtualNet cnet lNode runClientNode)"

definition main ::
  "(string \<Rightarrow> socketsConfig) \<Rightarrow> string \<Rightarrow>
   (string \<Rightarrow> socketsConfig \<Rightarrow> socketsConfig \<Rightarrow> localNode option \<Rightarrow>
     (handle \<Rightarrow> handle \<Rightarrow> string \<Rightarrow> socketsConfig \<Rightarrow> process \<Rightarrow> error + process) \<Rightarrow> 'r) \<Rightarrow> 'r" where
  "main = main_as ''YOURNAME''"

subsection \<open>The bootstrap of a node\<close>

text \<open>
  Modelled from the spec: \<open>setup_local\<close> of \<open>simulaqron.local.setup\<close> is not among
  the source files; what follows is the bootstrap as sections 4.1, 4.2 and 7 of the
  specification describe it. The world outside the node is a \<open>network\<close>: whether the
  endpoint at a host and port accepts a connection of a kind attempted at a time.
\<close>

type_synonym network = "channel \<Rightarrow> string \<Rightarrow> nat \<Rightarrow> nat \<Rightarrow> bool"

text \<open>
  Modelled from the spec: ConnectionAttempt (4.1). It attempts the endpoint; a failed
  attempt suspends for \<open>retryInterval\<close> and retries; success returns the handle;
  when the timeout, if set, has elapsed it fails with \<open>ConnectionTimeout\<close> naming the
  endpoint and the elapsed time. Without a timeout and with an endpoint that never accepts
  it does not return (the value \<open>None\<close>). Cancellation is not modelled.
\<close>

partial_function (option) connection_attempt ::
  "network \<Rightarrow> nat \<Rightarrow> nat option \<Rightarrow> channel \<Rightarrow> string \<Rightarrow> host \<Rightarrow> nat \<Rightarrow> (error + handle) option" where
  "connection_attempt net retryInterval timeout k nm h elapsed =
     (if net k (hostname h) (port h) elapsed
      then Some (Inr (Handle k (hostname h) (port h)))
      else if (case timeout of None \<Rightarrow> False | Some t \<Rightarrow> t \<le> elapsed + retryInterval)
      then Some (Inl (ConnectionTimeout nm (port h) (elapsed + retryInterval)))
      else connection_attempt net retryInterval timeout k nm h (elapsed + retryInterval))"

text \<open>
  Modelled from the spec: NetworkTopology (section 3). The neighbours of a node are those
  the topology gives it, and all other nodes of the classical registry when no topology is
  given.
\<close>

definition neighbours :: "(string \<times> string list) list option \<Rightarrow> socketsConfig \<Rightarrow> string \<Rightarrow> string list" where
  "neighbours topo cnet nm =
     (case topo of
        None \<Rightarrow> filter (\<lambda>n. n \<noteq> nm) (map fst (hostDict cnet))
      | Some t \<Rightarrow> (case map_of t nm of None \<Rightarrow> [] | Some ns \<Rightarrow> ns))"

text \<open>
  Modelled from the spec: the registry lookups of the neighbours; an unknown name is a
  \<open>RegistryError\<close> (section 7).
\<close>

fun lookup_all :: "socketsConfig \<Rightarrow> string list \<Rightarrow> error + (string \<times> host) list" where
  "lookup_all cnet [] = Inr []"
| "lookup_all cnet (n # ns) =
     (case map_of (hostDict cnet) n of
        None \<Rightarrow> Inl (RegistryError n)
      | Some h \<Rightarrow>
          (case lookup_all cnet ns of
             Inl e \<Rightarrow> Inl e
           | Inr r \<Rightarrow> Inr ((n, h) # r)))"

text \<open>
  Modelled from the spec: the states of the RendezvousCoordinator (4.2) and its
  BootstrapState (section 3): the node's name, its backend endpoint and peers, the
  classical registry with the peer handles made so far, the server object if the node is a
  server and whether it listens, the backend handles \<open>(qReg, virtRoot)\<close>, the
  invocations of the continuation so far with their arguments, the state of the process
  (after the invocation: what the continuation returned, the state it left or the error it
  raised), and the error of a failed bootstrap.
\<close>

datatype phase = Idle | ConnectingBackend | ConnectingPeers | ServerCheck | Ready | Running | Failed

record coordinator =
  phase :: phase
  me :: string
  backend_ep :: host
  peers :: "(string \<times> host) list"
  registry :: socketsConfig
  server :: "localNode option"
  listening :: bool
  backend :: "(handle \<times> handle) option"
  calls :: "(handle \<times> handle \<times> string \<times> socketsConfig) list"
  app :: "error + process"
  failure :: "error option"

text \<open>
  Modelled from the spec: the start of a node (4.4 and section 7). \<open>RegistryError\<close>
  and \<open>ServerBindError\<close> are fatal here, before any coordinator exists: the node must
  be in the backend registry, its neighbours in the classical registry, and the server,
  if the node has one, must bind its port; it is started eagerly and listens from then on.
\<close>

definition spawn ::
  "(nat \<Rightarrow> bool) \<Rightarrow> (string \<times> string list) list option \<Rightarrow> process \<Rightarrow>
   string \<Rightarrow> socketsConfig \<Rightarrow> socketsConfig \<Rightarrow> localNode option \<Rightarrow> error + coordinator" where
  "spawn can_bind topo p nm vnet cnet lNode =
     (case map_of (hostDict vnet) nm of
        None \<Rightarrow> Inl (RegistryError nm)
      | Some ep \<Rightarrow>
          (case lookup_all cnet (neighbours topo cnet nm) of
             Inl e \<Rightarrow> Inl e
           | Inr ps \<Rightarrow>
               (case lNode of
                  None \<Rightarrow>
                    Inr \<lparr>phase = Idle, me = nm, backend_ep = ep, peers = ps, registry = cnet,
                         server = None, listening = False, backend = None,
                         calls = [], app = Inr p, failure = None\<rparr>
                | Some srv \<Rightarrow>
                    if can_bind (port (node srv))
                    then Inr \<lparr>phase = Idle, me = nm, backend_ep = ep, peers = ps,
                              registry = cnet, server = Some srv, listening = True,
                              backend = None, calls = [], app = Inr p, failure = None\<rparr>
                    else Inl (ServerBindError nm))))"

text \<open>
  Modelled from the spec: the failure policy of 4.2. A failed bootstrap is terminal and
  keeps the error.
\<close>

definition fail :: "error \<Rightarrow> coordinator \<Rightarrow> coordinator" where
  "fail e c = c\<lparr>phase := Failed, failure := Some e\<rparr>"

text \<open>
  Modelled from the spec: \<open>ConnectingBackend\<close> (4.2). The virtual node interface and
  the quantum register are two handles on the node's own backend endpoint and both must
  succeed; the server object, if any, is told about them by late binding (4.3).
\<close>

definition connect_backend :: "network \<Rightarrow> nat \<Rightarrow> nat option \<Rightarrow> coordinator \<Rightarrow> coordinator option" where
  "connect_backend net ri tmo c =
     (case connection_attempt net ri tmo VirtualNode (me c) (backend_ep c) 0 of
        None \<Rightarrow> None
      | Some (Inl e) \<Rightarrow> Some (fail e c)
      | Some (Inr vr) \<Rightarrow>
          (case connection_attempt net ri tmo QuantumRegister (me c) (backend_ep c) 0 of
             None \<Rightarrow> None
           | Some (Inl e) \<Rightarrow> Some (fail e c)
           | Some (Inr qr) \<Rightarrow>
               Some (c\<lparr>phase := ConnectingPeers, backend := Some (qr, vr),
                       server := map_option (\<lambda>s. set_virtual_reg (set_virtual_node s vr) qr)
                                   (server c)\<rparr>)))"

text \<open>
  Modelled from the spec: \<open>ConnectingPeers\<close> (4.2). One attempt per neighbour, each
  with its own clock (they run concurrently: none waits for another); the step is over
  when every attempt has succeeded or timed out. Any timeout fails the bootstrap, which is
  all or nothing; otherwise every peer handle is attached to its entry of the registry.
\<close>

fun connect_all ::
  "network \<Rightarrow> nat \<Rightarrow> nat option \<Rightarrow> (string \<times> host) list \<Rightarrow> (string \<times> (error + handle)) list option" where
  "connect_all net ri tmo [] = Some []"
| "connect_all net ri tmo ((nm, h) # rest) =
     (case connection_attempt net ri tmo ClassicalPeer nm h 0 of
        None \<Rightarrow> None
      | Some r \<Rightarrow>
          (case connect_all net ri tmo rest of
             None \<Rightarrow> None
           | Some rs \<Rightarrow> Some ((nm, r) # rs)))"

fun timeouts :: "(string \<times> (error + handle)) list \<Rightarrow> error list" where
  "timeouts [] = []"
| "timeouts ((nm, Inl e) # rs) = e # timeouts rs"
| "timeouts ((nm, Inr ch) # rs) = timeouts rs"

fun links :: "(string \<times> (error + handle)) list \<Rightarrow> (string \<times> handle) list" where
  "links [] = []"
| "links ((nm, Inl e) # rs) = links rs"
| "links ((nm, Inr ch) # rs) = (nm, ch) # links rs"

definition attach :: "(string \<times> handle) list \<Rightarrow> socketsConfig \<Rightarrow> socketsConfig" where
  "attach ls cnet =
     cnet\<lparr>hostDict :=
       map (\<lambda>(n, h). (n, case map_of ls n of None \<Rightarrow> h | Some ch \<Rightarrow> h\<lparr>root := Some ch\<rparr>))
         (hostDict cnet)\<rparr>"

definition connect_peers :: "network \<Rightarrow> nat \<Rightarrow> nat option \<Rightarrow> coordinator \<Rightarrow> coordinator option" where
  "connect_peers net ri tmo c =
     (case connect_all net ri tmo (peers c) of
        None \<Rightarrow> None
      | Some rs \<Rightarrow>
          (case timeouts rs of
             e # _ \<Rightarrow> Some (fail e c)
           | [] \<Rightarrow> Some (c\<lparr>phase := ServerCheck, registry := attach (links rs) (registry c)\<rparr>)))"

text \<open>
  Modelled from the spec: \<open>ServerCheck\<close> (4.2). A node that is a server is ready only
  if its server listens.
\<close>

definition server_check :: "coordinator \<Rightarrow> coordinator" where
  "server_check c =
     (if server c \<noteq> None \<and> \<not> listening c then fail (ServerBindError (me c)) c
      else c\<lparr>phase := Ready\<rparr>)"

text \<open>
  Modelled from the spec: \<open>Ready\<close> to \<open>Running\<close> (4.2). The continuation is called
  within the step, with the backend handles, the node's name and the registry holding the
  peer handles, as \<open>runClientNode\<close> takes them.
\<close>

definition invoke ::
  "(handle \<Rightarrow> handle \<Rightarrow> string \<Rightarrow> socketsConfig \<Rightarrow> process \<Rightarrow> error + process) \<Rightarrow> coordinator \<Rightarrow> coordinator" where
  "invoke cont c =
     (case backend c of
        None \<Rightarrow> c\<lparr>phase := Failed\<rparr>
      | Some (qr, vr) \<Rightarrow>
          c\<lparr>phase := Running,
            calls := calls c @ [(qr, vr, me c, registry c)],
            app := (case app c of
                      Inl e \<Rightarrow> Inl e
                    | Inr p \<Rightarrow> cont qr vr (me c) (registry c) p)\<rparr>)"

text \<open>
  Modelled from the spec: one transition of the state machine of 4.2; \<open>Running\<close> and
  \<open>Failed\<close> are terminal. The value is \<open>None\<close> when an attempt of the step never
  resolves.
\<close>

definition coord_step ::
  "network \<Rightarrow> nat \<Rightarrow> nat option \<Rightarrow>
   (handle \<Rightarrow> handle \<Rightarrow> string \<Rightarrow> socketsConfig \<Rightarrow> process \<Rightarrow> error + process) \<Rightarrow>
   coordinator \<Rightarrow> coordinator option" where
  "coord_step net ri tmo cont c =
     (case phase c of
        Idle \<Rightarrow> Some (c\<lparr>phase := ConnectingBackend\<rparr>)
      | ConnectingBackend \<Rightarrow> connect_backend net ri tmo c
      | ConnectingPeers \<Rightarrow> connect_peers net ri tmo c
      | ServerCheck \<Rightarrow> Some (server_check c)
      | Ready \<Rightarrow> Some (invoke cont c)
      | Running \<Rightarrow> Some c
      | Failed \<Rightarrow> Some c)"

text \<open>Modelled from the spec: \<open>n\<close> transitions of the state machine.\<close>

fun coord_run ::
  "network \<Rightarrow> nat \<Rightarrow> nat option \<Rightarrow>
   (handle \<Rightarrow> handle \<Rightarrow> string \<Rightarrow> socketsConfig \<Rightarrow> process \<Rightarrow> error + process) \<Rightarrow>
   nat \<Rightarrow> coordinator \<Rightarrow> coordinator option" where
  "coord_run net ri tmo cont 0 c = Some c"
| "coord_run net ri tmo cont (Suc n) c =
     (case coord_step net ri tmo cont c of
        None \<Rightarrow> None
      | Some c' \<Rightarrow> coord_run net ri tmo cont n c')"

text \<open>
  Modelled from the spec: \<open>setup_local\<close>, as \<open>main\<close> calls it: the node is started
  and its coordinator makes the five transitions from \<open>Idle\<close> to a terminal state.
\<close>

definition setup_local ::
  "network \<Rightarrow> nat \<Rightarrow> nat option \<Rightarrow> (nat \<Rightarrow> bool) \<Rightarrow> (string \<times> string list) list option \<Rightarrow> process \<Rightarrow>
   string \<Rightarrow> socketsConfig \<Rightarrow> socketsConfig \<Rightarrow> localNode option \<Rightarrow>
   (handle \<Rightarrow> handle \<Rightarrow> string \<Rightarrow> socketsConfig \<Rightarrow> process \<Rightarrow> error + process) \<Rightarrow>
   (error + coordinator) option" where
  "setup_local net ri tmo can_bind topo p nm vnet cnet lNode cont =
     (case spawn can_bind topo p nm vnet cnet lNode of
        Inl e \<Rightarrow> Some (Inl e)
      | Inr c \<Rightarrow> map_option Inr (coord_run net ri tmo cont 5 c))"

section \<open>The command line (simulaqron/SimulaQron.py)\<close>

subsection \<open>Paths\<close>

text \<open>
  \<open>os.path.join\<close> on two components: an absolute second component replaces the
  first, and a separator is added unless the first is empty or ends with one.
\<close>

definition path_join :: "string \<Rightarrow> string \<Rightarrow> string" where
  "path_join a b =
     (if b \<noteq> [] \<and> hd b = CHR ''/'' then b
      else if a = [] \<or> last a = CHR ''/'' then a @ b
      else a @ ''/'' @ b)"

subsection \<open>The daemon object and the system it runs in\<close>

record SimulaQronDaemon =
  pidfile :: string
  name :: "string option"
  nrnodes :: "int option"
  nodes :: "string option"
  topology :: "string option"

text \<open>
  The state the commands act on: the configuration files written by
  \<open>setup_cqc_files\<close>, the pid records that exist (their paths), the running
  daemons with whatever state they hold, and the warnings logged.
  What \<open>manage_nodes.setup_cqc_files\<close> does to the configuration, and what the
  daemon library's \<open>start\<close> and \<open>stop\<close> do to the pid records and processes, are
  parameters of the commands.
\<close>

record ('cfg, 'procs) system =
  config :: 'cfg
  pid_records :: "string set"
  procs :: 'procs
  warnings :: "string list"

definition start_pidfile :: "string \<Rightarrow> string option \<Rightarrow> string" where
  "start_pidfile PID_FOLDER nm =
     (let nm1 = (case nm of None \<Rightarrow> ''default'' | Some n \<Rightarrow> n)
      in path_join PID_FOLDER (''simulaqron_network_'' @ nm1 @ ''.pid''))"

definition start ::
  "('cfg \<Rightarrow> 'cfg) \<Rightarrow>
   (SimulaQronDaemon \<Rightarrow> ('cfg, 'procs) system \<Rightarrow> error + ('cfg, 'procs) system) \<Rightarrow>
   string \<Rightarrow> string option \<Rightarrow> int option \<Rightarrow> string option \<Rightarrow> string option \<Rightarrow>
   ('cfg, 'procs) system \<Rightarrow> error + ('cfg, 'procs) system" where
  "start setup_cqc_files daemon_start PID_FOLDER nm nr ns topo s =
     (let s1 = s\<lparr>config := setup_cqc_files (config s)\<rparr>;
          nm1 = (case nm of None \<Rightarrow> ''default'' | Some n \<Rightarrow> n);
          pf = start_pidfile PID_FOLDER nm
      in if pf \<in> pid_records s1
         then Inr (s1\<lparr>warnings := warnings s1 @
                     [''Network with name '' @ nm1 @ '' is already running'']\<rparr>)
         else daemon_start
                \<lparr>pidfile = pf, name = Some nm1, nrnodes = nr, nodes = ns, topology = topo\<rparr> s1)"

definition stop_pidfile :: "string \<Rightarrow> string option \<Rightarrow> string" where
  "stop_pidfile PID_FOLDER nm =
     (let nm1 = (case nm of None \<Rightarrow> ''default'' | Some n \<Rightarrow> n)
      in path_join PID_FOLDER (''simulaqron_network_'' @ nm1 @ ''.pid''))"

definition stop ::
  "(SimulaQronDaemon \<Rightarrow> ('cfg, 'procs) system \<Rightarrow> error + ('cfg, 'procs) system) \<Rightarrow>
   string \<Rightarrow> string option \<Rightarrow>
   ('cfg, 'procs) system \<Rightarrow> error + ('cfg, 'procs) system" where
  "stop daemon_stop PID_FOLDER nm s =
     (let nm1 = (case nm of None \<Rightarrow> ''default'' | Some n \<Rightarrow> n);
          pf = stop_pidfile PID_FOLDER nm
      in if pf \<notin> pid_records s
         then Inr (s\<lparr>warnings := warnings s @
                     [''Network with name '' @ nm1 @ '' is not running'']\<rparr>)
         else daemon_stop
                \<lparr>pidfile = pf, name = None, nrnodes = None, nodes = None, topology = None\<rparr> s)"

subsection \<open>The daemon's run method\<close>

text \<open>
  Python truth values of the options: an absent option is \<open>None\<close>, a number is true
  when it is not zero, a string when it is not empty.
\<close>

definition truthy_int :: "int option \<Rightarrow> bool" where
  "truthy_int x = (case x of None \<Rightarrow> False | Some i \<Rightarrow> i \<noteq> 0)"

definition truthy_str :: "string option \<Rightarrow> bool" where
  "truthy_str x = (case x of None \<Rightarrow> False | Some s \<Rightarrow> s \<noteq> [])"

text \<open>\<open>s.split(c)\<close>: the pieces between the separators, empty pieces included.\<close>

fun str_split :: "char \<Rightarrow> string \<Rightarrow> string list" where
  "str_split c [] = [] # []"
| "str_split c (x # xs) =
     (if x = c then [] # str_split c xs
      else (case str_split c xs of
              w # ws \<Rightarrow> (x # w) # ws
            | [] \<Rightarrow> [x] # []))"

text \<open>\<open>"{}".format(i)\<close> for a number \<open>i\<close> of a \<open>range\<close>: its decimal digits.\<close>

definition digit_char :: "nat \<Rightarrow> char" where
  "digit_char d = char_of (of_char CHR ''0'' + d)"

fun str_nat :: "nat \<Rightarrow> string" where
  "str_nat n =
     (if n < 10 then [digit_char n]
      else str_nat (n div 10) @ [digit_char (n mod 10)])"

declare str_nat.simps [simp del]

text \<open>Reading a decimal numeral back, used to tell generated names apart.\<close>

definition nat_of_str :: "string \<Rightarrow> nat" where
  "nat_of_str s = foldl (\<lambda>acc c. 10 * acc + (of_char c - 48)) 0 s"

text \<open>
  What \<open>run\<close> hands to the \<open>Network\<close> constructor as \<open>nodes\<close>: a list of names,
  or the option itself (\<open>None\<close> or the empty string) when no option is set.
\<close>

datatype nodes_arg = NodesNone | NodesStr string | NodesList "string list"

definition explicit_nodes :: "string option \<Rightarrow> string list" where
  "explicit_nodes ns =
     (case ns of
        None \<Rightarrow> []
      | Some s \<Rightarrow> if s \<noteq> [] then str_split CHR '','' s else [])"

definition padding_nodes :: "nat \<Rightarrow> string list" where
  "padding_nodes k = map (\<lambda>i. ''Node'' @ str_nat i) [0..<k]"

definition run_nodes :: "int option \<Rightarrow> string option \<Rightarrow> string option \<Rightarrow> nodes_arg" where
  "run_nodes nr ns topo =
     (if truthy_int nr \<or> truthy_str ns \<or> truthy_str topo then
        (let nodes0 = explicit_nodes ns
         in case nr of
              None \<Rightarrow> NodesList nodes0
            | Some n \<Rightarrow>
                if n \<noteq> 0 \<and> n > int (length nodes0)
                then NodesList (nodes0 @ padding_nodes (nat (n - int (length nodes0))))
                else NodesList nodes0)
      else (case ns of None \<Rightarrow> NodesNone | Some s \<Rightarrow> NodesStr s))"

text \<open>
  \<open>time.sleep(0.1)\<close> suspends the process for a tenth of a second: the suspensions made
  so far are recorded, each with its length in milliseconds.
\<close>

definition sleep :: "nat \<Rightarrow> nat list \<Rightarrow> nat list" where
  "sleep ms sleeps = sleeps @ [ms]"

text \<open>
  The outcome of \<open>run\<close>: it raised, it returned, or it is still inside its loop, suspended,
  with the suspensions it has made.
\<close>

datatype run_outcome = Raised error | Returned | Suspended "nat list"

text \<open>
  The loop \<open>while True: time.sleep(0.1)\<close>, run with fuel, one unit for each iteration:
  when the fuel is used up the method is still inside the loop. The test of the loop is
  the constant \<open>True\<close>, whatever the state; leaving the loop would be the end of the
  method, which then returns.
\<close>

definition loop_test :: "nat list \<Rightarrow> bool" where
  "loop_test sleeps = True"

fun run_loop :: "nat \<Rightarrow> nat list \<Rightarrow> run_outcome" where
  "run_loop 0 sleeps = Suspended sleeps"
| "run_loop (Suc fuel) sleeps =
     (if loop_test sleeps then run_loop fuel (sleep 100 sleeps) else Returned)"

text \<open>
  \<open>Network(name, nodes, topology)\<close> followed by \<open>network.start()\<close> is the
  parameter \<open>network_start\<close>: it raises or yields the running network.
\<close>

definition run ::
  "(string option \<Rightarrow> nodes_arg \<Rightarrow> string option \<Rightarrow> error + 'n) \<Rightarrow>
   SimulaQronDaemon \<Rightarrow> nat \<Rightarrow> run_outcome" where
  "run network_start self fuel =
     (case network_start (name self)
             (run_nodes (nrnodes self) (nodes self) (topology self)) (topology self) of
        Inl e \<Rightarrow> Raised e
      | Inr network \<Rightarrow> run_loop fuel [])"

subsection \<open>The settings commands\<close>

text \<open>
  Each command calls \<open>simulaqron_settings.set_setting(section, key, value)\<close>, which
  is a parameter here, as is Python's \<open>str\<close> on the command's argument. The settings
  are the state the calls act on.
\<close>

definition conn_retry_time ::
  "(string \<Rightarrow> string \<Rightarrow> string \<Rightarrow> 'st \<Rightarrow> 'st) \<Rightarrow> ('v \<Rightarrow> string) \<Rightarrow> 'v \<Rightarrow> 'st \<Rightarrow> 'st" where
  "conn_retry_time set_setting str v st = set_setting ''BACKEND'' ''waittime'' (str v) st"

definition recv_timeout ::
  "(string \<Rightarrow> string \<Rightarrow> string \<Rightarrow> 'st \<Rightarrow> 'st) \<Rightarrow> ('v \<Rightarrow> string) \<Rightarrow> 'v \<Rightarrow> 'st \<Rightarrow> 'st" where
  "recv_timeout set_setting str v st =
     (let st1 = set_setting ''BACKEND'' ''recvtimeout'' (str v) st
      in set_setting ''BACKEND'' ''recveprtimeout'' (str v) st1)"

definition recv_retry_time ::
  "(string \<Rightarrow> string \<Rightarrow> string \<Rightarrow> 'st \<Rightarrow> 'st) \<Rightarrow> ('v \<Rightarrow> string) \<Rightarrow> 'v \<Rightarrow> 'st \<Rightarrow> 'st" where
  "recv_retry_time set_setting str v st = set_setting ''BACKEND'' ''waittimerecv'' (str v) st"

text \<open>
  \<open>noisy_qubits\<close> compares its argument with \<open>"on"\<close>. Which arguments reach it is
  decided by the argument type \<open>click.Choice("on", "off")\<close> of the click library.
\<close>

definition noisy_qubits ::
  "(string \<Rightarrow> string \<Rightarrow> string \<Rightarrow> 'st \<Rightarrow> 'st) \<Rightarrow> string \<Rightarrow> 'st \<Rightarrow> 'st" where
  "noisy_qubits set_setting v st =
     (if v = ''on'' then set_setting ''BACKEND'' ''noisy_qubits'' ''True'' st
      else set_setting ''BACKEND'' ''noisy_qubits'' ''False'' st)"

text \<open>
  A settings store for concrete runs: a map from section and key to the value, and
  \<open>set_setting\<close> as the update of one entry.
\<close>

definition store_set ::
  "string \<Rightarrow> string \<Rightarrow> string \<Rightarrow> (string \<times> string \<rightharpoonup> string) \<Rightarrow> (string \<times> string \<rightharpoonup> string)" where
  "store_set sec key val st = st((sec, key) \<mapsto> val)"

definition store_get :: "(string \<times> string \<rightharpoonup> string) \<Rightarrow> string \<Rightarrow> string \<Rightarrow> string option" where
  "store_get st sec key = st (sec, key)"

section \<open>Properties of the node template\<close>

text \<open>
  The continuation stops a running reactor, leaving its debug line behind, and raises
  when the reactor is not running.
\<close>

lemma runClientNode_outcome:
  "runClientNode qr vr nm cnet p =
     (if reactor_running p
      then Inr \<lparr>debug_log = debug_log p @ [''LOCAL '' @ nm @ '': Runing client side program.''],
                reactor_running = False\<rparr>
      else Inl ReactorNotRunning)"
  by (simp add: runClientNode_def reactor_stop_def)

text \<open>
  C6: the server object takes no backend handles at construction (after construction
  both \<open>virtRoot\<close> and \<open>qReg\<close> are \<open>None\<close>) and supports late binding: in every
  state of the object, \<open>set_virtual_node\<close> sets only the field \<open>virtRoot\<close> and
  \<open>set_virtual_reg\<close> sets only the field \<open>qReg\<close>; each leaves \<open>node\<close>,
  \<open>classicalNet\<close> and the other handle as they were.
\<close>

theorem localNode_late_binding:
  "virtRoot (localNode_init nd cnet) = None \<and> qReg (localNode_init nd cnet) = None \<and>
   node (localNode_init nd cnet) = nd \<and> classicalNet (localNode_init nd cnet) = cnet \<and>
   set_virtual_node self v =
     \<lparr>node = node self, classicalNet = classicalNet self, virtRoot = Some v, qReg = qReg self\<rparr> \<and>
   set_virtual_reg self r =
     \<lparr>node = node self, classicalNet = classicalNet self, virtRoot = virtRoot self, qReg = Some r\<rparr>"
  by (simp add: localNode_init_def set_virtual_node_def set_virtual_reg_def)

text \<open>
  C5: in \<open>main\<close> a server object is constructed if and only if the node's own name
  is a key of the classical registry; it is then built from the node's own entry and the
  registry, with no backend handle yet. Otherwise \<open>None\<close> is what \<open>main\<close> passes to
  the bootstrap as the server, whatever the bootstrap is.
\<close>

theorem main_server_iff_listed:
  "(main_lNode nm cnet \<noteq> None) = (nm \<in> fst ` set (hostDict cnet)) \<and>
   (nm \<notin> fst ` set (hostDict cnet)) = (main_lNode nm cnet = None) \<and>
   main_lNode nm cnet = map_option (\<lambda>h. localNode_init h cnet) (map_of (hostDict cnet) nm) \<and>
   main_as nm read_config network_file setup =
     setup nm (read_config network_file) (read_config ''./classicalNet.cfg'')
       (main_lNode nm (read_config ''./classicalNet.cfg'')) runClientNode \<and>
   main read_config network_file setup =
     setup ''YOURNAME'' (read_config network_file) (read_config ''./classicalNet.cfg'')
       (main_lNode ''YOURNAME'' (read_config ''./classicalNet.cfg'')) runClientNode"
proof -
  have "(map_of (hostDict cnet) nm = None) = (nm \<notin> fst ` set (hostDict cnet))"
    by (rule map_of_eq_None_iff)
  then have a: "(main_lNode nm cnet \<noteq> None) = (nm \<in> fst ` set (hostDict cnet))"
    by (cases "map_of (hostDict cnet) nm") (simp_all add: main_lNode_def)
  have b: "main_lNode nm cnet = map_option (\<lambda>h. localNode_init h cnet) (map_of (hostDict cnet) nm)"
    by (simp add: main_lNode_def split: option.split)
  have c: "main_as nm read_config network_file setup =
     setup nm (read_config network_file) (read_config ''./classicalNet.cfg'')
       (main_lNode nm (read_config ''./classicalNet.cfg'')) runClientNode" for nm
    by (simp add: main_as_def Let_def)
  from a have a': "(nm \<notin> fst ` set (hostDict cnet)) = (main_lNode nm cnet = None)"
    by blast
  show ?thesis
    unfolding main_def using a a' b c by blast
qed

section \<open>Properties of the command line\<close>

text \<open>
  C10: \<open>start\<close> and \<open>stop\<close> agree on the default instance. Without a name both
  use the name \<open>default\<close> and the same pid record, the file
  \<open>simulaqron_network_default.pid\<close> of the pid folder: it is the file whose existence
  \<open>start\<close> and \<open>stop\<close> test, the pid file of the daemon that \<open>start\<close> starts and
  the pid file of the daemon that \<open>stop\<close> stops. Each command behaves without a name
  exactly as it does with the name \<open>default\<close>.
\<close>

theorem start_stop_default_pidfile:
  "start_pidfile PID_FOLDER None = path_join PID_FOLDER ''simulaqron_network_default.pid'' \<and>
   stop_pidfile PID_FOLDER None = path_join PID_FOLDER ''simulaqron_network_default.pid'' \<and>
   start_pidfile PID_FOLDER (Some ''default'') = start_pidfile PID_FOLDER None \<and>
   stop_pidfile PID_FOLDER nm = start_pidfile PID_FOLDER nm \<and>
   start setup_cqc_files daemon_start PID_FOLDER None nr ns topo s =
     start setup_cqc_files daemon_start PID_FOLDER (Some ''default'') nr ns topo s \<and>
   stop daemon_stop PID_FOLDER None s = stop daemon_stop PID_FOLDER (Some ''default'') s \<and>
   start setup_cqc_files daemon_start PID_FOLDER None nr ns topo s =
     (if path_join PID_FOLDER ''simulaqron_network_default.pid'' \<in> pid_records s
      then Inr (s\<lparr>config := setup_cqc_files (config s),
                  warnings := warnings s @ [''Network with name default is already running'']\<rparr>)
      else daemon_start
             \<lparr>pidfile = path_join PID_FOLDER ''simulaqron_network_default.pid'',
              name = Some ''default'', nrnodes = nr, nodes = ns, topology = topo\<rparr>
             (s\<lparr>config := setup_cqc_files (config s)\<rparr>)) \<and>
   stop daemon_stop PID_FOLDER None s =
     (if path_join PID_FOLDER ''simulaqron_network_default.pid'' \<in> pid_records s
      then daemon_stop
             \<lparr>pidfile = path_join PID_FOLDER ''simulaqron_network_default.pid'',
              name = None, nrnodes = None, nodes = None, topology = None\<rparr> s
      else Inr (s\<lparr>warnings := warnings s @ [''Network with name default is not running'']\<rparr>))"
  by (simp add: start_pidfile_def stop_pidfile_def start_def stop_def)

text \<open>
  C8: when the pid record of the named network does not exist, \<open>stop\<close> logs the
  warning that the network is not running and returns: whatever the daemon library's
  stop would do, it is not called, and the pid records, the processes and the
  configuration are as before.
\<close>

theorem stop_not_running:
  assumes "stop_pidfile PID_FOLDER nm \<notin> pid_records s"
  shows "stop daemon_stop PID_FOLDER nm s =
           Inr (s\<lparr>warnings := warnings s @
                  [''Network with name '' @ (case nm of None \<Rightarrow> ''default'' | Some n \<Rightarrow> n) @
                   '' is not running'']\<rparr>)"
  using assms by (simp add: stop_def)

theorem stop_not_running_witness:
  "stop (\<lambda>d s. Inl (RegistryError (pidfile d))) ''/pids'' (Some ''net1'')
     \<lparr>config = (), pid_records = {''/pids/simulaqron_network_default.pid''},
      procs = [''default''], warnings = []\<rparr> =
   Inr \<lparr>config = (), pid_records = {''/pids/simulaqron_network_default.pid''},
        procs = [''default''], warnings = [''Network with name net1 is not running'']\<rparr>"
  using stop_not_running
    [of "''/pids''" "Some ''net1''"
        "\<lparr>config = (), pid_records = {''/pids/simulaqron_network_default.pid''},
          procs = [''default''], warnings = []\<rparr>"
        "\<lambda>d s. Inl (RegistryError (pidfile d))"]
  by (simp add: stop_pidfile_def path_join_def)

text \<open>
  C2, as amended: when the pid record of the name exists, \<open>start\<close> raises nothing. It
  logs the warning that the network is already running and returns; the daemon
  library's start is not called, and the pid records and the processes are as before.
  (The configuration is what \<open>setup_cqc_files\<close>, which runs first, made of it.)
\<close>

theorem start_already_running:
  assumes "start_pidfile PID_FOLDER nm \<in> pid_records s"
  shows "start setup_cqc_files daemon_start PID_FOLDER nm nr ns topo s =
           Inr (s\<lparr>config := setup_cqc_files (config s),
                  warnings := warnings s @
                    [''Network with name '' @ (case nm of None \<Rightarrow> ''default'' | Some n \<Rightarrow> n) @
                     '' is already running'']\<rparr>) \<and>
         (case start setup_cqc_files daemon_start PID_FOLDER nm nr ns topo s of
            Inl e \<Rightarrow> False
          | Inr s' \<Rightarrow> pid_records s' = pid_records s \<and> procs s' = procs s)"
  using assms by (simp add: start_def)

theorem start_already_running_witness:
  "start (\<lambda>c. Suc c) (\<lambda>d s. Inr (s\<lparr>pid_records := insert (pidfile d) (pid_records s)\<rparr>))
     ''/pids'' (Some ''net1'') (Some 2) None None
     \<lparr>config = (0::nat), pid_records = {''/pids/simulaqron_network_net1.pid''},
      procs = [''net1''], warnings = []\<rparr> =
   Inr \<lparr>config = Suc 0, pid_records = {''/pids/simulaqron_network_net1.pid''},
        procs = [''net1''], warnings = [''Network with name net1 is already running'']\<rparr>"
  using start_already_running
    [of "''/pids''" "Some ''net1''"
        "\<lparr>config = (0::nat), pid_records = {''/pids/simulaqron_network_net1.pid''},
          procs = [''net1''], warnings = []\<rparr>"
        "\<lambda>c. Suc c"
        "\<lambda>d s. Inr (s\<lparr>pid_records := insert (pidfile d) (pid_records s)\<rparr>)"
        "Some 2" None None]
  by (simp add: start_pidfile_def path_join_def)

text \<open>
  The claim C2 as written fails: with the pid record of \<open>default\<close> present, a second
  \<open>start\<close> returns normally, with a warning logged, and is no
  \<open>DuplicateInstanceError\<close>.
\<close>

theorem start_duplicate_no_error:
  "start (\<lambda>c. c) (\<lambda>d s. Inr (s\<lparr>pid_records := insert (pidfile d) (pid_records s)\<rparr>))
     ''/pids'' None None None None
     \<lparr>config = (), pid_records = {''/pids/simulaqron_network_default.pid''},
      procs = [''default''], warnings = []\<rparr> =
   Inr \<lparr>config = (), pid_records = {''/pids/simulaqron_network_default.pid''},
        procs = [''default''], warnings = [''Network with name default is already running'']\<rparr> \<and>
   start (\<lambda>c. c) (\<lambda>d s. Inr (s\<lparr>pid_records := insert (pidfile d) (pid_records s)\<rparr>))
     ''/pids'' None None None None
     \<lparr>config = (), pid_records = {''/pids/simulaqron_network_default.pid''},
      procs = [''default''], warnings = []\<rparr> \<noteq>
   Inl (DuplicateInstanceError ''default'')"
  by (simp add: start_def start_pidfile_def path_join_def)

text \<open>
  C7: the connection-retry setting and the receive settings are kept apart. Whenever
  \<open>set_setting\<close> stores a value under its section and key and leaves every other
  entry alone, \<open>conn_retry_time\<close> changes only \<open>waittime\<close>, \<open>recv_retry_time\<close>
  only \<open>waittimerecv\<close>, and \<open>recv_timeout\<close> changes \<open>recvtimeout\<close> and
  \<open>recveprtimeout\<close> and neither \<open>waittime\<close> nor \<open>waittimerecv\<close>.
\<close>

theorem retry_settings_distinct:
  assumes law: "\<And>sec key val st sec' key'.
     get_setting (set_setting sec key val st) sec' key' =
       (if sec' = sec \<and> key' = key then Some val else get_setting st sec' key')"
  shows "get_setting (conn_retry_time set_setting str v st) sec key =
           (if sec = ''BACKEND'' \<and> key = ''waittime'' then Some (str v)
            else get_setting st sec key) \<and>
         get_setting (recv_retry_time set_setting str v st) sec key =
           (if sec = ''BACKEND'' \<and> key = ''waittimerecv'' then Some (str v)
            else get_setting st sec key) \<and>
         get_setting (recv_timeout set_setting str v st) sec key =
           (if sec = ''BACKEND'' \<and> (key = ''recvtimeout'' \<or> key = ''recveprtimeout'')
            then Some (str v) else get_setting st sec key) \<and>
         get_setting (recv_timeout set_setting str v st) ''BACKEND'' ''waittime'' =
           get_setting st ''BACKEND'' ''waittime'' \<and>
         get_setting (recv_timeout set_setting str v st) ''BACKEND'' ''waittimerecv'' =
           get_setting st ''BACKEND'' ''waittimerecv''"
  by (auto simp add: conn_retry_time_def recv_retry_time_def recv_timeout_def Let_def law)

theorem retry_settings_distinct_witness:
  "(\<forall>sec key val st sec' key'.
      store_get (store_set sec key val st) sec' key' =
        (if sec' = sec \<and> key' = key then Some val else store_get st sec' key')) \<and>
   store_get (conn_retry_time store_set (\<lambda>x. x) ''0.5''
      [(''BACKEND'', ''waittimerecv'') \<mapsto> ''0.1'']) ''BACKEND'' ''waittime'' = Some ''0.5'' \<and>
   store_get (conn_retry_time store_set (\<lambda>x. x) ''0.5''
      [(''BACKEND'', ''waittimerecv'') \<mapsto> ''0.1'']) ''BACKEND'' ''waittimerecv'' = Some ''0.1'' \<and>
   store_get (recv_retry_time store_set (\<lambda>x. x) ''0.5''
      [(''BACKEND'', ''waittimerecv'') \<mapsto> ''0.1'']) ''BACKEND'' ''waittimerecv'' = Some ''0.5'' \<and>
   store_get (recv_retry_time store_set (\<lambda>x. x) ''0.5''
      [(''BACKEND'', ''waittimerecv'') \<mapsto> ''0.1'']) ''BACKEND'' ''waittime'' = None \<and>
   store_get (recv_timeout store_set (\<lambda>x. x) ''0.5''
      [(''BACKEND'', ''waittimerecv'') \<mapsto> ''0.1'']) ''BACKEND'' ''recvtimeout'' = Some ''0.5'' \<and>
   store_get (recv_timeout store_set (\<lambda>x. x) ''0.5''
      [(''BACKEND'', ''waittimerecv'') \<mapsto> ''0.1'']) ''BACKEND'' ''recveprtimeout'' = Some ''0.5'' \<and>
   store_get (recv_timeout store_set (\<lambda>x. x) ''0.5''
      [(''BACKEND'', ''waittimerecv'') \<mapsto> ''0.1'']) ''BACKEND'' ''waittimerecv'' = Some ''0.1'' \<and>
   store_get (recv_timeout store_set (\<lambda>x. x) ''0.5''
      [(''BACKEND'', ''waittimerecv'') \<mapsto> ''0.1'']) ''BACKEND'' ''waittime'' = None"
proof -
  have law: "store_get (store_set sec key val st) sec' key' =
      (if sec' = sec \<and> key' = key then Some val else store_get st sec' key')"
    for sec key val st sec' key'
    by (simp add: store_get_def store_set_def)
  note inst = retry_settings_distinct
    [of store_get store_set "\<lambda>x. x" "''0.5''" "[(''BACKEND'', ''waittimerecv'') \<mapsto> ''0.1'']",
     OF law]
  have base: "store_get [(''BACKEND'', ''waittimerecv'') \<mapsto> ''0.1''] ''BACKEND'' ''waittimerecv''
      = Some ''0.1''"
    "store_get [(''BACKEND'', ''waittimerecv'') \<mapsto> ''0.1''] ''BACKEND'' ''waittime'' = None"
    by (simp_all add: store_get_def)
  show ?thesis
    using law inst [of "''BACKEND''" "''waittime''"] inst [of "''BACKEND''" "''waittimerecv''"]
      inst [of "''BACKEND''" "''recvtimeout''"] inst [of "''BACKEND''" "''recveprtimeout''"] base
    by simp
qed

section \<open>Properties of the daemon's run method\<close>

lemma digit_val: "d < 10 \<Longrightarrow> of_char (digit_char d) - 48 = d"
  by (simp add: digit_char_def)

lemma nat_of_str_nat: "nat_of_str (str_nat n) = n"
proof (induction n rule: str_nat.induct)
  case (1 n)
  show ?case
  proof (cases "n < 10")
    case True
    then show ?thesis by (simp add: str_nat.simps[of n] nat_of_str_def digit_val)
  next
    case False
    with 1 have "nat_of_str (str_nat (n div 10)) = n div 10" by simp
    with False show ?thesis
      by (simp add: str_nat.simps[of n] nat_of_str_def digit_val)
  qed
qed

lemma str_nat_inj: "str_nat a = str_nat b \<Longrightarrow> a = b"
  by (metis nat_of_str_nat)

lemma distinct_padding: "distinct (padding_nodes k)"
  by (auto simp add: padding_nodes_def distinct_map inj_on_def dest: str_nat_inj)

lemma padding_nodes_0: "padding_nodes 0 = []"
  by (simp add: padding_nodes_def)

lemma run_nodes_list:
  assumes "run_nodes nr ns topo = NodesList l"
  shows "l = explicit_nodes ns @
           padding_nodes (nat ((case nr of None \<Rightarrow> 0 | Some n \<Rightarrow> n) - int (length (explicit_nodes ns))))"
  using assms
  by (auto simp add: run_nodes_def Let_def padding_nodes_0 split: if_splits option.splits)

text \<open>
  C3, as amended: whenever \<open>run\<close> builds a list of node names, the list is the names
  listed explicitly followed by the padding names \<open>Node0\<close>, \<open>Node1\<close>, ... up to the
  requested number of nodes. The padding names never collide with each other. The whole
  list is pairwise distinct exactly when the explicit names are pairwise distinct and
  none of them is one of the padding names; nothing in \<open>run\<close> makes it so.
\<close>

theorem run_nodes_distinct_iff:
  assumes "run_nodes nr ns topo = NodesList l"
  shows "l = explicit_nodes ns @
           padding_nodes (nat ((case nr of None \<Rightarrow> 0 | Some n \<Rightarrow> n) - int (length (explicit_nodes ns)))) \<and>
         distinct (padding_nodes k) \<and>
         distinct l =
           (distinct (explicit_nodes ns) \<and>
            set (explicit_nodes ns) \<inter>
              set (padding_nodes (nat ((case nr of None \<Rightarrow> 0 | Some n \<Rightarrow> n) - int (length (explicit_nodes ns))))) = {})"
proof -
  note l = run_nodes_list [OF assms]
  have "distinct l =
           (distinct (explicit_nodes ns) \<and>
            set (explicit_nodes ns) \<inter>
              set (padding_nodes (nat ((case nr of None \<Rightarrow> 0 | Some n \<Rightarrow> n) - int (length (explicit_nodes ns))))) = {})"
    by (subst l) (simp add: distinct_padding)
  with l distinct_padding show ?thesis by blast
qed

theorem run_nodes_distinct_iff_witness:
  "run_nodes (Some 3) (Some ''Alice,Bob'') None = NodesList [''Alice'', ''Bob'', ''Node0''] \<and>
   explicit_nodes (Some ''Alice,Bob'') = [''Alice'', ''Bob''] \<and>
   padding_nodes 1 = [''Node0''] \<and>
   distinct [''Alice'', ''Bob'', ''Node0'']"
proof -
  have r: "run_nodes (Some 3) (Some ''Alice,Bob'') None = NodesList [''Alice'', ''Bob'', ''Node0'']"
    by code_simp
  have e: "explicit_nodes (Some ''Alice,Bob'') = [''Alice'', ''Bob'']"
    by code_simp
  have p: "padding_nodes 1 = [''Node0'']"
    by code_simp
  from run_nodes_distinct_iff [OF r, of 1] r e p show ?thesis by simp
qed

text \<open>
  The claim C3 as written fails: asked for two nodes with \<open>Node0\<close> listed
  explicitly, \<open>run\<close> pads with \<open>Node0\<close> again and hands the same name twice to the
  network.
\<close>

theorem run_nodes_duplicate:
  "run_nodes (Some 2) (Some ''Node0'') None = NodesList [''Node0'', ''Node0''] \<and>
   \<not> distinct [''Node0'', ''Node0'']"
proof -
  have "run_nodes (Some 2) (Some ''Node0'') None = NodesList [''Node0'', ''Node0'']"
    by code_simp
  then show ?thesis by simp
qed

lemma run_loop_suspended: "run_loop fuel sleeps = Suspended (sleeps @ replicate fuel 100)"
  by (induction fuel arbitrary: sleeps) (simp_all add: sleep_def loop_test_def)

text \<open>
  C4: once the network is started, \<open>run\<close> never returns: however many iterations of
  its loop it is given, it has neither returned nor raised but is still inside the loop,
  and it has suspended itself for a tenth of a second once in every iteration made, so
  no iteration passes without a suspension. (The stop request that ends the daemon comes
  from outside the method and is not part of it.)
\<close>

theorem run_never_returns:
  assumes "network_start (name self)
             (run_nodes (nrnodes self) (nodes self) (topology self)) (topology self) = Inr network"
  shows "\<forall>fuel. run network_start self fuel = Suspended (replicate fuel 100) \<and>
                run network_start self fuel \<noteq> Returned"
  using assms by (simp add: run_def run_loop_suspended)

theorem run_never_returns_witness:
  "run (\<lambda>nm ns topo. Inr ns)
     \<lparr>pidfile = ''/pids/simulaqron_network_default.pid'', name = Some ''default'',
      nrnodes = Some 2, nodes = None, topology = None\<rparr> 3 = Suspended [100, 100, 100] \<and>
   run (\<lambda>nm ns topo. Inr ns)
     \<lparr>pidfile = ''/pids/simulaqron_network_default.pid'', name = Some ''default'',
      nrnodes = Some 2, nodes = None, topology = None\<rparr> 3 \<noteq> Returned"
proof -
  have "\<forall>fuel. run (\<lambda>nm ns topo. Inr ns)
     \<lparr>pidfile = ''/pids/simulaqron_network_default.pid'', name = Some ''default'',
      nrnodes = Some 2, nodes = None, topology = None\<rparr> fuel = Suspended (replicate fuel 100) \<and>
    run (\<lambda>nm ns topo. Inr ns)
     \<lparr>pidfile = ''/pids/simulaqron_network_default.pid'', name = Some ''default'',
      nrnodes = Some 2, nodes = None, topology = None\<rparr> fuel \<noteq> Returned"
    by (rule run_never_returns) simp
  then have "run (\<lambda>nm ns topo. Inr ns)
     \<lparr>pidfile = ''/pids/simulaqron_network_default.pid'', name = Some ''default'',
      nrnodes = Some 2, nodes = None, topology = None\<rparr> 3 = Suspended (replicate 3 100) \<and>
    run (\<lambda>nm ns topo. Inr ns)
     \<lparr>pidfile = ''/pids/simulaqron_network_default.pid'', name = Some ''default'',
      nrnodes = Some 2, nodes = None, topology = None\<rparr> 3 \<noteq> Returned"
    by (rule spec)
  then show ?thesis by (simp add: numeral_3_eq_3)
qed

section \<open>Properties of the bootstrap\<close>

lemma attempt_result:
  assumes "connection_attempt net ri tmo k nm h e = Some y"
  shows "case y of Inl _ \<Rightarrow> True | Inr x \<Rightarrow> x = Handle k (hostname h) (port h)"
  by (rule connection_attempt.raw_induct
        [where P = "\<lambda>net ri tmo k nm h e y.
                      case y of Inl _ \<Rightarrow> True | Inr x \<Rightarrow> x = Handle k (hostname h) (port h)",
         OF _ assms])
     (auto split: if_splits)

lemma attempt_handle:
  "connection_attempt net ri tmo k nm h e = Some (Inr x) \<Longrightarrow> x = Handle k (hostname h) (port h)"
  by (drule attempt_result) simp

lemma connect_all_ok:
  assumes "\<forall>(nb, h) \<in> set ps. \<exists>ch. connection_attempt net ri tmo ClassicalPeer nb h 0 = Some (Inr ch)"
  shows "connect_all net ri tmo ps =
           Some (map (\<lambda>(nb, h). (nb, Inr (Handle ClassicalPeer (hostname h) (port h)))) ps)"
  using assms
proof (induction ps)
  case Nil
  then show ?case by simp
next
  case (Cons a ps)
  obtain nb h where a: "a = (nb, h)" by (cases a)
  from Cons.prems a obtain ch
    where ch: "connection_attempt net ri tmo ClassicalPeer nb h 0 = Some (Inr ch)" by auto
  then have "ch = Handle ClassicalPeer (hostname h) (port h)" by (rule attempt_handle)
  with ch Cons a show ?case by simp
qed

lemma timeouts_all_ok: "timeouts (map (\<lambda>(nb, h). (nb, Inr (f h))) ps) = []"
  by (induction ps) auto

lemma links_all_ok: "links (map (\<lambda>(nb, h). (nb, Inr (f h))) ps) = map (\<lambda>(nb, h). (nb, f h)) ps"
  by (induction ps) auto

lemma lookup_all_Inr:
  "lookup_all cnet ns = Inr ps \<Longrightarrow>
     map fst ps = ns \<and> (\<forall>(n, h) \<in> set ps. map_of (hostDict cnet) n = Some h)"
  by (induction ns arbitrary: ps) (auto split: option.splits sum.splits)

lemma map_of_attach:
  "map_of (hostDict (attach ls cnet)) n =
     map_option (\<lambda>h. case map_of ls n of None \<Rightarrow> h | Some ch \<Rightarrow> h\<lparr>root := Some ch\<rparr>)
       (map_of (hostDict cnet) n)"
proof -
  have "map_of (map (\<lambda>(n, h). (n, case map_of ls n of None \<Rightarrow> h | Some ch \<Rightarrow> h\<lparr>root := Some ch\<rparr>)) xs) n =
     map_option (\<lambda>h. case map_of ls n of None \<Rightarrow> h | Some ch \<Rightarrow> h\<lparr>root := Some ch\<rparr>) (map_of xs n)"
    for xs
    by (induction xs) (auto split: option.splits)
  then show ?thesis by (simp add: attach_def)
qed

lemma map_of_peer_links:
  assumes "\<forall>(n, h) \<in> set ps. D n = Some h" and "n \<in> fst ` set ps"
  shows "map_of (map (\<lambda>(nb, h). (nb, f h)) ps) n = map_option f (D n)"
  using assms by (induction ps) (auto split: if_splits)

lemma coord_run_add:
  "coord_run net ri tmo cont (a + b) c =
     (case coord_run net ri tmo cont a c of
        None \<Rightarrow> None
      | Some c' \<Rightarrow> coord_run net ri tmo cont b c')"
  by (induction a arbitrary: c) (auto split: option.splits)

lemma coord_run_Running:
  "phase c = Running \<Longrightarrow> coord_run net ri tmo cont n c = Some c"
  by (induction n) (auto simp add: coord_step_def)

lemma spawn_Inr:
  assumes "spawn can_bind topo p nm vnet cnet lNode = Inr c0"
  shows "phase c0 = Idle" "me c0 = nm" "registry c0 = cnet" "calls c0 = []" "app c0 = Inr p"
    "server c0 \<noteq> None \<longrightarrow> listening c0" "map_of (hostDict vnet) nm = Some (backend_ep c0)"
    "lookup_all cnet (neighbours topo cnet nm) = Inr (peers c0)"
    "server c0 = lNode" "backend c0 = None"
  using assms by (auto simp add: spawn_def split: option.splits sum.splits if_splits)


text \<open>
  C1: for every node that is started, whose backend connection (both handles) and every
  neighbour connection succeed within their timeouts, the bootstrap ends in \<open>Running\<close>
  and the continuation is invoked exactly once, within the step from \<open>Ready\<close>, with the
  handles \<open>qReg\<close> and \<open>virtRoot\<close> of the node's own backend endpoint, the node's name
  and the classical registry, in which every neighbour carries the live handle to its
  endpoint. However many more steps are taken, the state stays the same (no second
  invocation); before the fifth step nothing has been invoked, and in the state just
  before the invocation the backend handles and every peer handle are already in place.
\<close>

theorem continuation_invoked_once:
  assumes spawned: "spawn can_bind topo p nm vnet cnet lNode = Inr c0"
    and vnode: "connection_attempt net ri tmo VirtualNode nm (backend_ep c0) 0 = Some (Inr vr)"
    and qreg: "connection_attempt net ri tmo QuantumRegister nm (backend_ep c0) 0 = Some (Inr qr)"
    and nbs: "\<forall>(nb, h) \<in> set (peers c0).
                \<exists>ch. connection_attempt net ri tmo ClassicalPeer nb h 0 = Some (Inr ch)"
  shows "\<exists>c c4.
      setup_local net ri tmo can_bind topo p nm vnet cnet lNode cont = Some (Inr c) \<and>
      phase c = Running \<and>
      calls c = [(qr, vr, nm, registry c)] \<and>
      app c = cont qr vr nm (registry c) p \<and>
      map_of (hostDict vnet) nm = Some (backend_ep c0) \<and>
      vr = Handle VirtualNode (hostname (backend_ep c0)) (port (backend_ep c0)) \<and>
      qr = Handle QuantumRegister (hostname (backend_ep c0)) (port (backend_ep c0)) \<and>
      (\<forall>nb \<in> set (neighbours topo cnet nm).
         \<exists>h. map_of (hostDict cnet) nb = Some h \<and>
             map_of (hostDict (registry c)) nb =
               Some (h\<lparr>root := Some (Handle ClassicalPeer (hostname h) (port h))\<rparr>)) \<and>
      (\<forall>n\<ge>5. coord_run net ri tmo cont n c0 = Some c) \<and>
      (\<forall>n<5. \<exists>c'. coord_run net ri tmo cont n c0 = Some c' \<and> calls c' = []) \<and>
      coord_run net ri tmo cont 4 c0 = Some c4 \<and> phase c4 = Ready \<and> calls c4 = [] \<and>
      backend c4 = Some (qr, vr) \<and> registry c4 = registry c"
proof -
  note sp = spawn_Inr [OF spawned]
  define ls where "ls = map (\<lambda>(nb, h). (nb, Handle ClassicalPeer (hostname h) (port h))) (peers c0)"
  define s1 where "s1 = c0\<lparr>phase := ConnectingBackend\<rparr>"
  define s2 where "s2 = s1\<lparr>phase := ConnectingPeers, backend := Some (qr, vr),
      server := map_option (\<lambda>s. set_virtual_reg (set_virtual_node s vr) qr) (server s1)\<rparr>"
  define s3 where "s3 = s2\<lparr>phase := ServerCheck, registry := attach ls (registry s2)\<rparr>"
  define s4 where "s4 = s3\<lparr>phase := Ready\<rparr>"
  define s5 where "s5 = s4\<lparr>phase := Running, calls := calls s4 @ [(qr, vr, me s4, registry s4)],
      app := cont qr vr (me s4) (registry s4) p\<rparr>"
  have st0: "coord_step net ri tmo cont c0 = Some s1"
    by (simp add: coord_step_def sp s1_def)
  have st1: "coord_step net ri tmo cont s1 = Some s2"
    using vnode qreg by (simp add: coord_step_def connect_backend_def sp s1_def s2_def)
  have st2: "coord_step net ri tmo cont s2 = Some s3"
    by (simp add: coord_step_def connect_peers_def connect_all_ok [OF nbs] timeouts_all_ok
          links_all_ok s3_def s2_def s1_def ls_def)
  have st3: "coord_step net ri tmo cont s3 = Some s4"
    using sp(6) by (auto simp add: coord_step_def server_check_def s4_def s3_def s2_def s1_def)
  have me4: "me s4 = nm" "app s4 = Inr p" "calls s4 = []" "registry s4 = attach ls cnet"
    "backend s4 = Some (qr, vr)" "phase s4 = Ready"
    by (simp_all add: s4_def s3_def s2_def s1_def sp)
  have st4: "coord_step net ri tmo cont s4 = Some s5"
    by (simp add: coord_step_def invoke_def me4 s5_def)
  have r0: "coord_run net ri tmo cont 0 c0 = Some c0" by simp
  have r1: "coord_run net ri tmo cont 1 c0 = Some s1" by (simp add: st0)
  have r2: "coord_run net ri tmo cont 2 c0 = Some s2" by (simp add: eval_nat_numeral st0 st1)
  have r3: "coord_run net ri tmo cont 3 c0 = Some s3" by (simp add: eval_nat_numeral st0 st1 st2)
  have r4: "coord_run net ri tmo cont 4 c0 = Some s4"
    by (simp add: eval_nat_numeral st0 st1 st2 st3)
  have r5: "coord_run net ri tmo cont 5 c0 = Some s5"
    by (simp add: eval_nat_numeral st0 st1 st2 st3 st4)
  have ph5: "phase s5 = Running" by (simp add: s5_def)
  have late: "coord_run net ri tmo cont n c0 = Some s5" if "5 \<le> n" for n
  proof -
    from that obtain m where "n = 5 + m" using le_Suc_ex by blast
    then show ?thesis
      by (simp only: coord_run_add r5 option.case coord_run_Running [OF ph5])
  qed
  have c0_calls: "calls c0 = []" by (rule sp)
  have early: "\<exists>c'. coord_run net ri tmo cont n c0 = Some c' \<and> calls c' = []" if "n < 5" for n
  proof -
    from that consider "n = 0" | "n = 1" | "n = 2" | "n = 3" | "n = 4" by linarith
    then show ?thesis
    proof cases
      case 1 with r0 c0_calls show ?thesis by simp
    next
      case 2 with r1 c0_calls show ?thesis by (simp add: s1_def)
    next
      case 3 with r2 c0_calls show ?thesis by (simp add: s2_def s1_def)
    next
      case 4 with r3 c0_calls show ?thesis by (simp add: s3_def s2_def s1_def)
    next
      case 5 with r4 c0_calls show ?thesis by (simp add: s4_def s3_def s2_def s1_def)
    qed
  qed
  have reg5: "registry s5 = attach ls cnet"
    by (simp add: s5_def me4)
  have calls5: "calls s5 = [(qr, vr, nm, registry s5)]"
    by (simp add: s5_def me4)
  have app5: "app s5 = cont qr vr nm (registry s5) p"
    by (simp add: s5_def me4)
  have reg45: "registry s4 = registry s5" by (simp add: reg5 me4)
  have res: "setup_local net ri tmo can_bind topo p nm vnet cnet lNode cont = Some (Inr s5)"
    by (simp add: setup_local_def spawned r5)
  have hv: "vr = Handle VirtualNode (hostname (backend_ep c0)) (port (backend_ep c0))"
    using vnode by (rule attempt_handle)
  have hq: "qr = Handle QuantumRegister (hostname (backend_ep c0)) (port (backend_ep c0))"
    using qreg by (rule attempt_handle)
  from lookup_all_Inr [OF sp(8)]
  have fstps: "map fst (peers c0) = neighbours topo cnet nm"
    and inreg: "\<forall>(n, h) \<in> set (peers c0). map_of (hostDict cnet) n = Some h"
    by blast+
  have live: "\<exists>h. map_of (hostDict cnet) nb = Some h \<and>
             map_of (hostDict (registry s5)) nb =
               Some (h\<lparr>root := Some (Handle ClassicalPeer (hostname h) (port h))\<rparr>)"
    if nb: "nb \<in> set (neighbours topo cnet nm)" for nb
  proof -
    from nb fstps have mem: "nb \<in> fst ` set (peers c0)" by (metis set_map)
    then obtain h where h: "(nb, h) \<in> set (peers c0)" by auto
    with inreg have D: "map_of (hostDict cnet) nb = Some h" by auto
    have "map_of ls nb = map_option (\<lambda>h. Handle ClassicalPeer (hostname h) (port h))
        (map_of (hostDict cnet) nb)"
      unfolding ls_def using inreg mem by (rule map_of_peer_links)
    with D have "map_of ls nb = Some (Handle ClassicalPeer (hostname h) (port h))" by simp
    with D show ?thesis by (simp add: reg5 map_of_attach)
  qed
  from res ph5 calls5 app5 sp(7) hv hq live late early r4 me4 reg45
  show ?thesis by blast
qed


theorem continuation_invoked_once_witness:
  "\<exists>c. main_as ''Alice''
          (\<lambda>f. if f = ''./classicalNet.cfg''
               then \<lparr>hostDict = [(''Alice'', \<lparr>hostname = ''localhost'', port = 8811, root = None\<rparr>),
                                 (''Bob'', \<lparr>hostname = ''localhost'', port = 8812, root = None\<rparr>)]\<rparr>
               else \<lparr>hostDict = [(''Alice'', \<lparr>hostname = ''localhost'', port = 8801, root = None\<rparr>),
                                 (''Bob'', \<lparr>hostname = ''localhost'', port = 8802, root = None\<rparr>)]\<rparr>)
          ''network.json''
          (setup_local (\<lambda>k h p t. k \<noteq> ClassicalPeer \<or> 2 \<le> t) 1 (Some 10) (\<lambda>p. True) None
             \<lparr>debug_log = [], reactor_running = True\<rparr>) = Some (Inr c) \<and>
       phase c = Running \<and>
       calls c = [(Handle QuantumRegister ''localhost'' 8801, Handle VirtualNode ''localhost'' 8801,
                   ''Alice'', registry c)] \<and>
       map_of (hostDict (registry c)) ''Bob'' =
         Some \<lparr>hostname = ''localhost'', port = 8812,
               root = Some (Handle ClassicalPeer ''localhost'' 8812)\<rparr> \<and>
       app c = Inr \<lparr>debug_log = [''LOCAL Alice: Runing client side program.''],
                    reactor_running = False\<rparr>"
proof -
  let ?cnet = "\<lparr>hostDict = [(''Alice'', \<lparr>hostname = ''localhost'', port = 8811, root = None\<rparr>),
                            (''Bob'', \<lparr>hostname = ''localhost'', port = 8812, root = None\<rparr>)]\<rparr>"
  let ?vnet = "\<lparr>hostDict = [(''Alice'', \<lparr>hostname = ''localhost'', port = 8801, root = None\<rparr>),
                            (''Bob'', \<lparr>hostname = ''localhost'', port = 8802, root = None\<rparr>)]\<rparr>"
  let ?net = "\<lambda>(k::channel) (h::string) (p::nat) (t::nat). k \<noteq> ClassicalPeer \<or> 2 \<le> t"
  let ?p = "\<lparr>debug_log = [], reactor_running = True\<rparr>"
  let ?c0 = "\<lparr>phase = Idle, me = ''Alice'',
              backend_ep = \<lparr>hostname = ''localhost'', port = 8801, root = None\<rparr>,
              peers = [(''Bob'', \<lparr>hostname = ''localhost'', port = 8812, root = None\<rparr>)],
              registry = ?cnet, server = main_lNode ''Alice'' ?cnet, listening = True,
              backend = None, calls = [], app = Inr ?p, failure = None\<rparr>"
  have sp: "spawn (\<lambda>p. True) None ?p ''Alice'' ?vnet ?cnet (main_lNode ''Alice'' ?cnet) = Inr ?c0"
    by (simp add: spawn_def neighbours_def main_lNode_def)
  have v: "connection_attempt ?net 1 (Some 10) VirtualNode ''Alice'' (backend_ep ?c0) 0 =
      Some (Inr (Handle VirtualNode ''localhost'' 8801))"
    by (simp add: connection_attempt.simps)
  have q: "connection_attempt ?net 1 (Some 10) QuantumRegister ''Alice'' (backend_ep ?c0) 0 =
      Some (Inr (Handle QuantumRegister ''localhost'' 8801))"
    by (simp add: connection_attempt.simps)
  have n: "\<forall>(nb, h) \<in> set (peers ?c0).
      \<exists>ch. connection_attempt ?net 1 (Some 10) ClassicalPeer nb h 0 = Some (Inr ch)"
    by (simp add: connection_attempt.simps)
  from continuation_invoked_once [OF sp v q n, of runClientNode]
  obtain c where c: "setup_local ?net 1 (Some 10) (\<lambda>p. True) None ?p ''Alice'' ?vnet ?cnet
        (main_lNode ''Alice'' ?cnet) runClientNode = Some (Inr c)"
      "phase c = Running"
      "calls c = [(Handle QuantumRegister ''localhost'' 8801,
                   Handle VirtualNode ''localhost'' 8801, ''Alice'', registry c)]"
      "app c = runClientNode (Handle QuantumRegister ''localhost'' 8801)
                 (Handle VirtualNode ''localhost'' 8801) ''Alice'' (registry c) ?p"
      "\<forall>nb \<in> set (neighbours None ?cnet ''Alice'').
         \<exists>h. map_of (hostDict ?cnet) nb = Some h \<and>
             map_of (hostDict (registry c)) nb =
               Some (h\<lparr>root := Some (Handle ClassicalPeer (hostname h) (port h))\<rparr>)"
    by blast
  from c(5) have bob: "map_of (hostDict (registry c)) ''Bob'' =
         Some \<lparr>hostname = ''localhost'', port = 8812,
               root = Some (Handle ClassicalPeer ''localhost'' 8812)\<rparr>"
    by (simp add: neighbours_def)
  have m: "main_as ''Alice''
          (\<lambda>f. if f = ''./classicalNet.cfg'' then ?cnet else ?vnet) ''network.json''
          (setup_local ?net 1 (Some 10) (\<lambda>p. True) None ?p) = Some (Inr c)"
    using c(1) by (simp add: main_as_def)
  from m c(2,3) bob c(4) show ?thesis
    by (simp add: runClientNode_def reactor_stop_def)
qed

section \<open>The noisy-qubits setting\<close>

text \<open>
  What \<open>noisy_qubits\<close> stores follows its argument alone: \<open>True\<close> for the string
  \<open>on\<close>, \<open>False\<close> for every other string. Which strings the argument type
  \<open>click.Choice("on", "off")\<close> lets through is decided inside the click library.
\<close>

lemma noisy_qubits_value:
  "noisy_qubits set_setting v st =
     set_setting ''BACKEND'' ''noisy_qubits'' (if v = ''on'' then ''True'' else ''False'') st"
  by (simp add: noisy_qubits_def)

end
